theory Spec2Isabelle
  imports Complex_Main "HOL-Library.Monad_Syntax"
begin

section \<open>JavaScript numbers\<close>

text \<open>
  The engine computes with the JavaScript Number type. A Number is modelled as an exact
  real, or one of the three special values that division and subtraction can produce.
  The rounding of IEEE doubles and the sign of zero are outside the model: every zero
  is \<open>+0\<close> (the divisors of the engine are an array length and a square root, which
  never are \<open>-0\<close>).
\<close>

datatype number = Finite real | Infinity | NegInfinity | NaN

fun js_neg :: "number \<Rightarrow> number" where
  "js_neg (Finite a) = Finite (- a)"
| "js_neg Infinity = NegInfinity"
| "js_neg NegInfinity = Infinity"
| "js_neg NaN = NaN"

fun js_add :: "number \<Rightarrow> number \<Rightarrow> number" where
  "js_add (Finite a) (Finite b) = Finite (a + b)"
| "js_add (Finite a) Infinity = Infinity"
| "js_add (Finite a) NegInfinity = NegInfinity"
| "js_add Infinity (Finite b) = Infinity"
| "js_add Infinity Infinity = Infinity"
| "js_add Infinity NegInfinity = NaN"
| "js_add NegInfinity (Finite b) = NegInfinity"
| "js_add NegInfinity NegInfinity = NegInfinity"
| "js_add NegInfinity Infinity = NaN"
| "js_add NaN b = NaN"
| "js_add a NaN = NaN"

definition js_sub :: "number \<Rightarrow> number \<Rightarrow> number" where
  "js_sub a b = js_add a (js_neg b)"

fun js_mul :: "number \<Rightarrow> number \<Rightarrow> number" where
  "js_mul (Finite a) (Finite b) = Finite (a * b)"
| "js_mul (Finite a) Infinity =
     (if a = 0 then NaN else if 0 < a then Infinity else NegInfinity)"
| "js_mul (Finite a) NegInfinity =
     (if a = 0 then NaN else if 0 < a then NegInfinity else Infinity)"
| "js_mul Infinity (Finite b) =
     (if b = 0 then NaN else if 0 < b then Infinity else NegInfinity)"
| "js_mul NegInfinity (Finite b) =
     (if b = 0 then NaN else if 0 < b then NegInfinity else Infinity)"
| "js_mul Infinity Infinity = Infinity"
| "js_mul Infinity NegInfinity = NegInfinity"
| "js_mul NegInfinity Infinity = NegInfinity"
| "js_mul NegInfinity NegInfinity = Infinity"
| "js_mul NaN b = NaN"
| "js_mul a NaN = NaN"

fun js_div :: "number \<Rightarrow> number \<Rightarrow> number" where
  "js_div (Finite a) (Finite b) =
     (if b = 0 then (if a = 0 then NaN else if 0 < a then Infinity else NegInfinity)
      else Finite (a / b))"
| "js_div (Finite a) Infinity = Finite 0"
| "js_div (Finite a) NegInfinity = Finite 0"
| "js_div Infinity (Finite b) = (if 0 \<le> b then Infinity else NegInfinity)"
| "js_div NegInfinity (Finite b) = (if 0 \<le> b then NegInfinity else Infinity)"
| "js_div Infinity Infinity = NaN"
| "js_div Infinity NegInfinity = NaN"
| "js_div NegInfinity Infinity = NaN"
| "js_div NegInfinity NegInfinity = NaN"
| "js_div NaN b = NaN"
| "js_div a NaN = NaN"

fun js_gt :: "number \<Rightarrow> number \<Rightarrow> bool" where
  "js_gt (Finite a) (Finite b) = (b < a)"
| "js_gt (Finite a) Infinity = False"
| "js_gt (Finite a) NegInfinity = True"
| "js_gt Infinity (Finite b) = True"
| "js_gt Infinity Infinity = False"
| "js_gt Infinity NegInfinity = True"
| "js_gt NegInfinity b = False"
| "js_gt NaN b = False"
| "js_gt a NaN = False"


text \<open>
  \<open>x.toFixed(f)\<close> returns a decimal string. The string is represented by the number
  it denotes, which is what \<open>parseFloat\<close> and the coercion of \<open>b.score - a.score\<close>
  read back: \<open>"0.30"\<close> is \<open>Finite (3/10)\<close>, \<open>"Infinity"\<close> is \<open>Infinity\<close>,
  \<open>"NaN"\<close> is \<open>NaN\<close>. For a finite \<open>x\<close> below \<open>10^21\<close> in magnitude the
  digits are those of the integer \<open>n\<close> closest to \<open>\<bar>x\<bar> * 10^f\<close>, the larger one
  on a tie; from \<open>10^21\<close> on the string is the number's own.
\<close>

definition toFixed :: "nat \<Rightarrow> number \<Rightarrow> number" where
  "toFixed f x =
     (case x of
        Finite r \<Rightarrow>
          (if 10 ^ 21 \<le> \<bar>r\<bar> then Finite r
           else Finite (sgn r * of_int \<lfloor>\<bar>r\<bar> * 10 ^ f + 1 / 2\<rfloor> / 10 ^ f))
      | _ \<Rightarrow> x)"

text \<open>
  \<open>Math.atan2(y, x)\<close> on finite arguments: the angle of the point \<open>(x, y)\<close> in
  \<open>(-\<pi>, \<pi>]\<close>, with \<open>atan2(0, 0) = 0\<close>.
\<close>

definition Math_atan2 :: "real \<Rightarrow> real \<Rightarrow> real" where
  "Math_atan2 y x =
     (if 0 < x then arctan (y / x)
      else if x < 0 then (if 0 \<le> y then arctan (y / x) + pi else arctan (y / x) - pi)
      else if 0 < y then pi / 2
      else if y < 0 then - (pi / 2)
      else 0)"

text \<open>
  \<open>Array.prototype.sort(comparefn)\<close>: a stable sort (ECMAScript 2019). A comparator
  result that is \<open>NaN\<close> counts as \<open>+0\<close>; \<open>x\<close> moves behind \<open>y\<close> only when
  \<open>comparefn(x, y) > 0\<close>. The model is the stable insertion sort; the engine's own
  algorithm is not modelled.
\<close>

fun js_insert :: "('a \<Rightarrow> 'a \<Rightarrow> number) \<Rightarrow> 'a \<Rightarrow> 'a list \<Rightarrow> 'a list" where
  "js_insert cmp x [] = [x]"
| "js_insert cmp x (y # ys) =
     (if js_gt (cmp x y) (Finite 0) then y # js_insert cmp x ys else x # y # ys)"

definition js_sort :: "('a \<Rightarrow> 'a \<Rightarrow> number) \<Rightarrow> 'a list \<Rightarrow> 'a list" where
  "js_sort cmp xs = foldr (js_insert cmp) xs []"

section \<open>Geospatial distance\<close>

definition toRad :: "real \<Rightarrow> real" where
  "toRad deg = deg * (pi / 180)"

text \<open>
  Coordinates arrive as JSON numbers, hence finite: they are reals. Lemma
  \<open>haversine_a_range\<close> below shows that both square roots take a non-negative argument.
\<close>

definition haversine_a :: "real \<Rightarrow> real \<Rightarrow> real \<Rightarrow> real \<Rightarrow> real" where
  "haversine_a lat1 lon1 lat2 lon2 =
     (let dLat = toRad (lat2 - lat1);
          dLon = toRad (lon2 - lon1)
      in sin (dLat / 2) * sin (dLat / 2) +
         cos (toRad lat1) * cos (toRad lat2) * sin (dLon / 2) * sin (dLon / 2))"

definition calculateDistance :: "real \<Rightarrow> real \<Rightarrow> real \<Rightarrow> real \<Rightarrow> real" where
  "calculateDistance lat1 lon1 lat2 lon2 =
     (let R = 6371;
          a = haversine_a lat1 lon1 lat2 lon2;
          c = 2 * Math_atan2 (sqrt a) (sqrt (1 - a))
      in R * c)"

section \<open>Data\<close>

text \<open>
  A hotspot as the eBird hotspot endpoint returns it; the fields the engine does not
  read stay in the record's extension. An observation is one entry of the recent
  observations of a hotspot.
\<close>

record hotspot =
  locId :: string
  locName :: string
  lat :: real
  lng :: real


record species_entry =
  commonName :: string
  scientificName :: string
  count :: nat
  lastSeen :: string

text \<open>
  The object \<open>speciesFrequency\<close> is keyed by species code. Its entries are kept in
  insertion order, the order in which \<open>Object.entries\<close> lists keys that are not
  array indices.
\<close>

type_synonym speciesFrequency = "(string \<times> species_entry) list"

record summary =
  hotspotId :: string
  species :: speciesFrequency
  totalChecklists :: nat

record topSpecies =
  name :: string
  probability :: number

record recommendation =
  hotspot :: hotspot
  newSpeciesCount :: nat
  expectedNewSpecies :: number
  distance :: number
  score :: number
  topNewSpecies :: "topSpecies list"

section \<open>Arrays and the state of the component\<close>

text \<open>
  \<open>Array.prototype.sort\<close> sorts the array it is called on, in place, while
  \<open>map\<close>, \<open>filter\<close>, \<open>slice\<close> and \<open>Object.entries\<close> return a new array. Arrays
  therefore live in a store, addressed by their position in it; a new array goes to the
  end of the store. Reading an address that holds no array of the expected kind is the
  \<open>TypeError\<close> of the source, here \<open>None\<close>. The component assigns to no property of
  an object, so the objects (hotspots, summaries with their species tables, the life-list
  \<open>Set\<close>) are values.
\<close>

type_synonym addr = nat

datatype array =
    HotspotArray "hotspot list"
  | EntryArray "(string \<times> species_entry) list"
  | NullableRecArray "recommendation option list"
  | RecArray "recommendation list"
  | TopArray "topSpecies list"

type_synonym heap = "array list"

definition alloc :: "array \<Rightarrow> heap \<Rightarrow> addr \<times> heap" where
  "alloc a hp = (length hp, hp @ [a])"

definition array_at :: "heap \<Rightarrow> addr \<Rightarrow> array option" where
  "array_at hp a = (if a < length hp then Some (hp ! a) else None)"

definition hotspots_at :: "heap \<Rightarrow> addr \<Rightarrow> hotspot list option" where
  "hotspots_at hp a = (case array_at hp a of Some (HotspotArray hs) \<Rightarrow> Some hs | _ \<Rightarrow> None)"

definition entries_at :: "heap \<Rightarrow> addr \<Rightarrow> (string \<times> species_entry) list option" where
  "entries_at hp a = (case array_at hp a of Some (EntryArray es) \<Rightarrow> Some es | _ \<Rightarrow> None)"

definition nullable_recs_at :: "heap \<Rightarrow> addr \<Rightarrow> recommendation option list option" where
  "nullable_recs_at hp a =
     (case array_at hp a of Some (NullableRecArray rs) \<Rightarrow> Some rs | _ \<Rightarrow> None)"

definition recs_at :: "heap \<Rightarrow> addr \<Rightarrow> recommendation list option" where
  "recs_at hp a = (case array_at hp a of Some (RecArray rs) \<Rightarrow> Some rs | _ \<Rightarrow> None)"

definition sort_entries ::
  "(string \<times> species_entry \<Rightarrow> string \<times> species_entry \<Rightarrow> number) \<Rightarrow> addr \<Rightarrow> heap \<Rightarrow> heap option" where
  "sort_entries cmp a hp = do {
     es \<leftarrow> entries_at hp a;
     Some (hp[a := EntryArray (js_sort cmp es)])
   }"

definition sort_recs ::
  "(recommendation \<Rightarrow> recommendation \<Rightarrow> number) \<Rightarrow> addr \<Rightarrow> heap \<Rightarrow> heap option" where
  "sort_recs cmp a hp = do {
     rs \<leftarrow> recs_at hp a;
     Some (hp[a := RecArray (js_sort cmp rs)])
   }"

text \<open>
  The state that \<open>calculateRecommendations\<close> reads and writes: the store, the state
  variables \<open>hotspots\<close> and \<open>recommendations\<close> as references to arrays in it,
  \<open>speciesData\<close>, \<open>userLifeList\<close> and \<open>stage\<close>.
\<close>

record app_state =
  heap :: heap
  hotspots :: addr
  speciesData :: "string \<rightharpoonup> summary"
  userLifeList :: "string set"
  recommendations :: addr
  stage :: string

section \<open>Species aggregation (\<open>fetchHotspotSpecies\<close>)\<close>

fun increment :: "string \<Rightarrow> speciesFrequency \<Rightarrow> speciesFrequency" where
  "increment code [] = []"
| "increment code ((k, d) # es) =
     (if k = code then (k, d\<lparr>count := count d + 1\<rparr>) # es
      else (k, d) # increment code es)"




section \<open>Recommendations (\<open>calculateRecommendations\<close>)\<close>

text \<open>
  The centre of the search, (41.94, -87.67). The earlier version of the component has the
  same functions with the centre (41.88, -87.75); \<open>recommend\<close> takes the centre as a
  parameter.
\<close>

definition CHICAGO_WEST :: "real \<times> real" where
  "CHICAGO_WEST = (4194 / 100, - (8767 / 100))"

text \<open>The species of a hotspot that are not on the life list.\<close>

definition newSpecies_of :: "string set \<Rightarrow> summary \<Rightarrow> speciesFrequency" where
  "newSpecies_of lifeList hotspotData =
     filter (\<lambda>(code, _). code \<notin> lifeList) (species hotspotData)"

text \<open>The \<open>reduce\<close>: the sum, from 0, of \<open>data.count / hotspotData.totalChecklists\<close>.\<close>

definition expectedNewSpecies_of :: "summary \<Rightarrow> speciesFrequency \<Rightarrow> number" where
  "expectedNewSpecies_of hotspotData newSpecies =
     foldl (\<lambda>sum (_, data).
              let probability =
                    js_div (Finite (real (count data)))
                           (Finite (real (totalChecklists hotspotData)))
              in js_add sum probability)
           (Finite 0) newSpecies"

definition score_of :: "number \<Rightarrow> real \<Rightarrow> number" where
  "score_of expectedNewSpecies' distance' =
     (if 0 < distance' then js_div expectedNewSpecies' (Finite (sqrt distance'))
      else expectedNewSpecies')"

definition by_count_desc :: "string \<times> species_entry \<Rightarrow> string \<times> species_entry \<Rightarrow> number" where
  "by_count_desc a b = js_sub (Finite (real (count (snd b)))) (Finite (real (count (snd a))))"

definition topNewSpecies_of :: "summary \<Rightarrow> speciesFrequency \<Rightarrow> topSpecies list" where
  "topNewSpecies_of hotspotData newSpecies =
     map (\<lambda>(_, data).
            \<lparr>name = commonName data,
             probability =
               toFixed 0
                 (js_mul (js_div (Finite (real (count data)))
                                 (Finite (real (totalChecklists hotspotData))))
                         (Finite 100))\<rparr>)
         (take 5 (js_sort by_count_desc newSpecies))"

text \<open>The record built for a hotspot that has data.\<close>

definition recommendation_of ::
  "real \<times> real \<Rightarrow> string set \<Rightarrow> hotspot \<Rightarrow> summary \<Rightarrow> recommendation" where
  "recommendation_of center lifeList h hotspotData =
     (let newSpecies = newSpecies_of lifeList hotspotData;
          expectedNewSpecies' = expectedNewSpecies_of hotspotData newSpecies;
          distance' = calculateDistance (fst center) (snd center) (lat h) (lng h);
          score' = score_of expectedNewSpecies' distance'
      in \<lparr>hotspot = h,
          newSpeciesCount = length newSpecies,
          expectedNewSpecies = toFixed 1 expectedNewSpecies',
          distance = toFixed 1 (Finite distance'),
          score = toFixed 2 score',
          topNewSpecies = topNewSpecies_of hotspotData newSpecies\<rparr>)"

text \<open>\<open>.filter(r => r !== null)\<close>\<close>

fun non_null :: "'a option list \<Rightarrow> 'a list" where
  "non_null [] = []"
| "non_null (None # rs) = non_null rs"
| "non_null (Some r # rs) = r # non_null rs"

definition by_score_desc :: "recommendation \<Rightarrow> recommendation \<Rightarrow> number" where
  "by_score_desc a b = js_sub (score b) (score a)"

text \<open>
  The callback of \<open>hotspots.map\<close>: \<open>null\<close> (here \<open>None\<close>) for a hotspot without
  an entry in \<open>speciesData\<close>.
\<close>

definition rec_or_null ::
  "real \<times> real \<Rightarrow> string set \<Rightarrow> (string \<rightharpoonup> summary) \<Rightarrow> hotspot
   \<Rightarrow> recommendation option" where
  "rec_or_null center lifeList sdata h =
     (case sdata (locId h) of
        None \<Rightarrow> None
      | Some hotspotData \<Rightarrow> Some (recommendation_of center lifeList h hotspotData))"

definition recommend ::
  "real \<times> real \<Rightarrow> hotspot list \<Rightarrow> (string \<rightharpoonup> summary) \<Rightarrow> string set
   \<Rightarrow> recommendation list" where
  "recommend center hs sdata lifeList =
     (let recs = non_null (map (rec_or_null center lifeList sdata) hs)
      in js_sort by_score_desc recs)"

text \<open>
  The function itself, statement by statement, on the store. \<open>map_callback\<close> is the
  callback of \<open>hotspots.map\<close> once more, now with the arrays it creates and the one it
  sorts; \<open>map_heap\<close> is \<open>Array.prototype.map\<close> for a callback that uses the store.
  The properties of the store below relate it to \<open>recommend\<close>.
\<close>

definition map_callback ::
  "real \<times> real \<Rightarrow> string set \<Rightarrow> (string \<rightharpoonup> summary) \<Rightarrow> hotspot \<Rightarrow> heap
   \<Rightarrow> (recommendation option \<times> heap) option" where
  "map_callback center lifeList sdata h hp =
     (case sdata (locId h) of
        None \<Rightarrow> Some (None, hp)
      | Some hotspotData \<Rightarrow> do {
          let (entries, hp1) = alloc (EntryArray (species hotspotData)) hp;
          es \<leftarrow> entries_at hp1 entries;
          let (newSpecies, hp2) = alloc (EntryArray (filter (\<lambda>(code, _). code \<notin> lifeList) es)) hp1;
          ns \<leftarrow> entries_at hp2 newSpecies;
          let expectedNewSpecies' = expectedNewSpecies_of hotspotData ns;
          let distance' = calculateDistance (fst center) (snd center) (lat h) (lng h);
          let score' = score_of expectedNewSpecies' distance';
          let n = length ns;
          hp3 \<leftarrow> sort_entries by_count_desc newSpecies hp2;
          sorted \<leftarrow> entries_at hp3 newSpecies;
          let (sliced, hp4) = alloc (EntryArray (take 5 sorted)) hp3;
          top \<leftarrow> entries_at hp4 sliced;
          let tops = map (\<lambda>(_, data).
                \<lparr>name = commonName data,
                 probability =
                   toFixed 0
                     (js_mul (js_div (Finite (real (count data)))
                                     (Finite (real (totalChecklists hotspotData))))
                             (Finite 100))\<rparr>) top;
          let (mapped, hp5) = alloc (TopArray tops) hp4;
          Some (Some \<lparr>hotspot = h,
                      newSpeciesCount = n,
                      expectedNewSpecies = toFixed 1 expectedNewSpecies',
                      distance = toFixed 1 (Finite distance'),
                      score = toFixed 2 score',
                      topNewSpecies = tops\<rparr>, hp5)
        })"

fun map_heap ::
  "('a \<Rightarrow> heap \<Rightarrow> ('b \<times> heap) option) \<Rightarrow> 'a list \<Rightarrow> heap \<Rightarrow> ('b list \<times> heap) option" where
  "map_heap f [] hp = Some ([], hp)"
| "map_heap f (x # xs) hp = do {
     (y, hp1) \<leftarrow> f x hp;
     (ys, hp2) \<leftarrow> map_heap f xs hp1;
     Some (y # ys, hp2)
   }"

definition calculateRecommendations :: "app_state \<Rightarrow> app_state option" where
  "calculateRecommendations s = do {
     hs \<leftarrow> hotspots_at (heap s) (hotspots s);
     (rs, hp1) \<leftarrow> map_heap (map_callback CHICAGO_WEST (userLifeList s) (speciesData s)) hs (heap s);
     let (mapped, hp2) = alloc (NullableRecArray rs) hp1;
     rs' \<leftarrow> nullable_recs_at hp2 mapped;
     let (recs, hp3) = alloc (RecArray (non_null rs')) hp2;
     hp4 \<leftarrow> sort_recs by_score_desc recs hp3;
     Some (s\<lparr>heap := hp4, recommendations := recs, stage := ''recommendations''\<rparr>)
   }"

section \<open>Reference notions\<close>




text \<open>
  The haversine formula of the specification, on angles in radians:
  \<open>d = 2 R arcsin (sqrt (hav \<Delta>\<phi> + cos \<phi>1 cos \<phi>2 hav \<Delta>\<lambda>))\<close> with
  \<open>hav x = sin\<^sup>2 (x / 2)\<close>.
\<close>

definition hav :: "real \<Rightarrow> real" where
  "hav x = (sin (x / 2))\<^sup>2"

definition haversine_formula :: "real \<Rightarrow> real \<Rightarrow> real \<Rightarrow> real \<Rightarrow> real \<Rightarrow> real" where
  "haversine_formula radius phi1 lam1 phi2 lam2 =
     2 * radius * arcsin (sqrt (hav (phi2 - phi1) + cos phi1 * cos phi2 * hav (lam2 - lam1)))"

section \<open>Sample data\<close>

definition sample_entry :: "string \<Rightarrow> nat \<Rightarrow> species_entry" where
  "sample_entry nm n =
     \<lparr>commonName = nm, scientificName = nm, count = n, lastSeen = ''2024-05-01 08:00''\<rparr>"

definition sample_summary :: "string \<Rightarrow> speciesFrequency \<Rightarrow> nat \<Rightarrow> summary" where
  "sample_summary hid sf n = \<lparr>hotspotId = hid, species = sf, totalChecklists = n\<rparr>"

definition sample_hotspot :: "string \<Rightarrow> real \<Rightarrow> real \<Rightarrow> hotspot" where
  "sample_hotspot hid la lo = \<lparr>locId = hid, locName = hid, lat = la, lng = lo\<rparr>"


definition sample_state :: app_state where
  "sample_state =
     \<lparr>heap = [HotspotArray [sample_hotspot ''A'' 42 (- 88), sample_hotspot ''B'' 41 (- 87)],
             RecArray []],
      hotspots = 0,
      speciesData = [''B'' \<mapsto> sample_summary ''B'' [(''blujay'', sample_entry ''Blue Jay'' 1)] 4],
      userLifeList = {},
      recommendations = 1,
      stage = ''species''\<rparr>"


section \<open>Properties of the distance\<close>




lemma sin_half_sq: "sin (x / 2) * sin (x / 2) = (1 - cos x) / 2" for x :: real
  using cos_double_sin [of "x / 2"] by (simp add: power2_eq_square)

lemma cos_half_sq: "cos (x / 2) * cos (x / 2) = (1 + cos x) / 2" for x :: real
  using cos_double_cos [of "x / 2"] by (simp add: power2_eq_square)

lemma haversine_a_convex:
  "haversine_a lat1 lon1 lat2 lon2 =
     (1 - sin (toRad (lon2 - lon1) / 2) * sin (toRad (lon2 - lon1) / 2))
       * ((1 - cos (toRad lat2 - toRad lat1)) / 2)
     + sin (toRad (lon2 - lon1) / 2) * sin (toRad (lon2 - lon1) / 2)
       * ((1 + cos (toRad lat2 + toRad lat1)) / 2)"
proof -
  define s where "s = sin (toRad (lon2 - lon1) / 2) * sin (toRad (lon2 - lon1) / 2)"
  define p where "p = cos (toRad lat1) * cos (toRad lat2)"
  define q where "q = sin (toRad lat1) * sin (toRad lat2)"
  have d: "toRad (lat2 - lat1) = toRad lat2 - toRad lat1"
    by (simp add: toRad_def left_diff_distrib)
  have cd: "cos (toRad lat2 - toRad lat1) = p + q"
    by (simp add: cos_diff p_def q_def mult.commute)
  have ca: "cos (toRad lat2 + toRad lat1) = p - q"
    by (simp add: cos_add p_def q_def mult.commute)
  have hs: "sin (toRad (lat2 - lat1) / 2) * sin (toRad (lat2 - lat1) / 2) = (1 - (p + q)) / 2"
    using sin_half_sq [of "toRad lat2 - toRad lat1"] by (simp only: d cd)
  have "haversine_a lat1 lon1 lat2 lon2
        = sin (toRad (lat2 - lat1) / 2) * sin (toRad (lat2 - lat1) / 2) + p * s"
    by (simp add: haversine_a_def Let_def s_def p_def mult.assoc)
  also have "\<dots> = (1 - (p + q)) / 2 + p * s"
    by (simp only: hs)
  also have "\<dots> = (1 - s) * ((1 - (p + q)) / 2) + s * ((1 + (p - q)) / 2)"
    by (simp add: field_simps)
  finally show ?thesis
    unfolding cd ca s_def .
qed

lemma haversine_a_range:
  "0 \<le> haversine_a lat1 lon1 lat2 lon2 \<and> haversine_a lat1 lon1 lat2 lon2 \<le> 1"
proof -
  define s where "s = sin (toRad (lon2 - lon1) / 2) * sin (toRad (lon2 - lon1) / 2)"
  define u where "u = (1 - cos (toRad lat2 - toRad lat1)) / 2"
  define v where "v = (1 + cos (toRad lat2 + toRad lat1)) / 2"
  have s: "0 \<le> s" "s \<le> 1"
    unfolding s_def sin_half_sq by simp_all
  have u: "0 \<le> u" "u \<le> 1" unfolding u_def by simp_all
  have "- 1 \<le> cos (toRad lat2 + toRad lat1)" "cos (toRad lat2 + toRad lat1) \<le> 1"
    by simp_all
  then have "0 \<le> v \<and> v \<le> 1"
    unfolding v_def by argo
  then have v: "0 \<le> v" "v \<le> 1"
    by simp_all
  have a: "haversine_a lat1 lon1 lat2 lon2 = (1 - s) * u + s * v"
    unfolding s_def u_def v_def by (rule haversine_a_convex)
  have "0 \<le> (1 - s) * u + s * v" using s u v by simp
  moreover have "(1 - s) * u + s * v \<le> (1 - s) * 1 + s * 1"
    using s u v by (intro add_mono mult_left_mono) simp_all
  ultimately show ?thesis using a by simp
qed



lemma atan2_arcsin:
  assumes "0 \<le> a" "a \<le> 1"
  shows "Math_atan2 (sqrt a) (sqrt (1 - a)) = arcsin (sqrt a)"
proof (cases "a = 1")
  case True
  then show ?thesis by (simp add: Math_atan2_def)
next
  case False
  then have pos: "0 < sqrt (1 - a)" using assms by simp
  let ?t = "sqrt a / sqrt (1 - a)"
  have "1 + ?t\<^sup>2 = 1 / (1 - a)"
    using assms False by (simp add: power_divide field_simps)
  then have "sqrt (1 + ?t\<^sup>2) = 1 / sqrt (1 - a)"
    by (simp add: real_sqrt_divide)
  then have "sin (arctan ?t) = sqrt a"
    using pos by (simp add: sin_arctan)
  moreover have "- (pi / 2) \<le> arctan ?t" "arctan ?t \<le> pi / 2"
    using arctan_lbound [of ?t] arctan_ubound [of ?t] by simp_all
  ultimately have "arcsin (sqrt a) = arctan ?t"
    using arcsin_sin [of "arctan ?t"] by simp
  then show ?thesis using pos by (simp add: Math_atan2_def)
qed

lemma calculateDistance_arcsin:
  "calculateDistance lat1 lon1 lat2 lon2 = 2 * 6371 * arcsin (sqrt (haversine_a lat1 lon1 lat2 lon2))"
  using haversine_a_range [of lat1 lon1 lat2 lon2]
  by (simp add: calculateDistance_def Let_def atan2_arcsin)

section \<open>Bounds for sine, cosine and \<open>\<pi>\<close>\<close>

lemma sin_coeffs:
  "sin_coeff (Suc 0) = 1" "sin_coeff 2 = 0" "sin_coeff 3 = - (1 / 6)" "sin_coeff 4 = 0"
  "sin_coeff 5 = 1 / 120" "sin_coeff 6 = 0"
  by (simp_all add: sin_coeff_def fact_numeral)

lemma cos_coeffs:
  "cos_coeff 0 = 1" "cos_coeff (Suc 0) = 0" "cos_coeff 2 = - (1 / 2)" "cos_coeff 3 = 0"
  "cos_coeff 4 = 1 / 24" "cos_coeff 5 = 0"
  by (simp_all add: cos_coeff_def fact_numeral)

lemma sum_upto3: "(\<Sum>m<3. f m) = f 0 + f 1 + (f 2 :: real)" for f :: "nat \<Rightarrow> real"
proof -
  have "{..<3::nat} = {0, 1, 2}" by auto
  then show ?thesis by simp
qed

lemma sum_upto6: "(\<Sum>m<6. f m) = f 0 + f 1 + f 2 + f 3 + f 4 + (f 5 :: real)" for f :: "nat \<Rightarrow> real"
proof -
  have "{..<6::nat} = {0, 1, 2, 3, 4, 5}" by auto
  then show ?thesis by simp
qed

lemma sum_upto7: "(\<Sum>m<7. f m) = f 0 + f 1 + f 2 + f 3 + f 4 + f 5 + (f 6 :: real)" for f :: "nat \<Rightarrow> real"
proof -
  have "{..<7::nat} = {0, 1, 2, 3, 4, 5, 6}" by auto
  then show ?thesis by simp
qed

lemma sin_taylor3: "\<bar>sin x - x\<bar> \<le> \<bar>x\<bar> ^ 3 / 6" for x :: real
proof -
  have s: "(\<Sum>m<3. sin_coeff m * x ^ m) = x"
    by (simp add: sum_upto3 sin_coeffs)
  have f: "inverse (fact 3) * \<bar>x\<bar> ^ 3 = \<bar>x\<bar> ^ 3 / 6"
    by (simp add: fact_numeral)
  show ?thesis
    using Maclaurin_sin_bound [of x 3] unfolding s f .
qed

lemma sin_taylor7:
  "\<bar>sin x - (x - x ^ 3 / 6 + x ^ 5 / 120)\<bar> \<le> \<bar>x\<bar> ^ 7 / 5040" for x :: real
proof -
  have s: "(\<Sum>m<7. sin_coeff m * x ^ m) = x - x ^ 3 / 6 + x ^ 5 / 120"
    by (simp add: sum_upto7 sin_coeffs)
  have f: "inverse (fact 7) * \<bar>x\<bar> ^ 7 = \<bar>x\<bar> ^ 7 / 5040"
    by (simp add: fact_numeral)
  show ?thesis
    using Maclaurin_sin_bound [of x 7] unfolding s f .
qed

lemma cos_taylor6:
  "\<bar>cos x - (1 - x ^ 2 / 2 + x ^ 4 / 24)\<bar> \<le> \<bar>x\<bar> ^ 6 / 720" for x :: real
proof -
  obtain t where "cos x = (\<Sum>m<6. cos_coeff m * x ^ m) + (cos (t + 1 / 2 * real 6 * pi) / fact 6) * x ^ 6"
    using Maclaurin_cos_expansion [of x 6] by blast
  moreover have "(\<Sum>m<6. cos_coeff m * x ^ m) = 1 - x ^ 2 / 2 + x ^ 4 / 24"
    by (simp add: sum_upto6 cos_coeffs)
  ultimately have e: "cos x - (1 - x ^ 2 / 2 + x ^ 4 / 24) = cos (t + 1 / 2 * real 6 * pi) * x ^ 6 / 720"
    by (simp add: fact_numeral)
  have "\<bar>cos (t + 1 / 2 * real 6 * pi)\<bar> * \<bar>x ^ 6\<bar> \<le> 1 * \<bar>x ^ 6\<bar>"
    by (intro mult_right_mono) simp_all
  then have "\<bar>cos (t + 1 / 2 * real 6 * pi) * x ^ 6 / 720\<bar> \<le> \<bar>x ^ 6\<bar> / 720"
    by (simp add: abs_mult)
  then show ?thesis unfolding e by (simp add: power_abs)
qed

lemma pi_gt_314: "314 / 100 < pi"
proof (rule ccontr)
  assume "\<not> 314 / 100 < pi"
  then have le: "pi / 6 \<le> 157 / 300" by simp
  have "(157 / 300 :: real) \<le> pi / 2" using pi_ge_two by simp
  then have "sin (pi / 6) \<le> sin (157 / 300)"
    using le by (intro sin_monotone_2pi_le) simp_all
  moreover have "sin (157 / 300) < (1 / 2 :: real)"
  proof -
    have "(157 / 300 :: real) - (157 / 300) ^ 3 / 6 + (157 / 300) ^ 5 / 120
          + \<bar>157 / 300\<bar> ^ 7 / 5040 < 1 / 2"
      by (simp add: power_divide)
    then show ?thesis
      using sin_taylor7 [of "157 / 300"] by linarith
  qed
  ultimately show False by (simp add: sin_30)
qed

lemma pi_lt_3142: "pi < 3142 / 1000"
proof (rule ccontr)
  assume "\<not> pi < 3142 / 1000"
  then have ge: "1571 / 3000 \<le> pi / 6" by simp
  have "sin (1571 / 3000) \<le> sin (pi / 6)"
    using ge by (intro sin_monotone_2pi_le) simp_all
  moreover have "(1 / 2 :: real) < sin (1571 / 3000)"
  proof -
    have "(1 / 2 :: real) < 1571 / 3000 - (1571 / 3000) ^ 3 / 6 + (1571 / 3000) ^ 5 / 120
          - \<bar>1571 / 3000\<bar> ^ 7 / 5040"
      by (simp add: power_divide)
    then show ?thesis
      using sin_taylor7 [of "1571 / 3000"] by linarith
  qed
  ultimately show False by (simp add: sin_30)
qed

lemma sin_between:
  fixes l x u :: real
  assumes "0 \<le> l" "l \<le> x" "x \<le> u"
  shows "l - u ^ 3 / 6 \<le> sin x" and "sin x \<le> u"
proof -
  have x: "0 \<le> x" using assms by simp
  have "x ^ 3 \<le> u ^ 3" using x assms by (intro power_mono) simp_all
  moreover have "\<bar>sin x - x\<bar> \<le> x ^ 3 / 6"
    using sin_taylor3 [of x] x by simp
  ultimately show "l - u ^ 3 / 6 \<le> sin x" using assms by linarith
  show "sin x \<le> u" using sin_x_le_x [OF x] assms by simp
qed

lemma cos_between:
  fixes l x u :: real
  assumes "0 \<le> l" "l \<le> x" "x \<le> u"
  shows "1 - u ^ 2 / 2 + l ^ 4 / 24 - u ^ 6 / 720 \<le> cos x"
    and "cos x \<le> 1 - l ^ 2 / 2 + u ^ 4 / 24 + u ^ 6 / 720"
proof -
  have x: "0 \<le> x" using assms by simp
  have p: "x ^ 2 \<le> u ^ 2" "x ^ 4 \<le> u ^ 4" "x ^ 6 \<le> u ^ 6" "l ^ 2 \<le> x ^ 2" "l ^ 4 \<le> x ^ 4"
    using x assms by (simp_all add: power_mono)
  have t: "\<bar>cos x - (1 - x ^ 2 / 2 + x ^ 4 / 24)\<bar> \<le> x ^ 6 / 720"
    using cos_taylor6 [of x] x by simp
  show "1 - u ^ 2 / 2 + l ^ 4 / 24 - u ^ 6 / 720 \<le> cos x"
    using t p by linarith
  show "cos x \<le> 1 - l ^ 2 / 2 + u ^ 4 / 24 + u ^ 6 / 720"
    using t p by linarith
qed

section \<open>The distance between the two reference points\<close>

lemma arcsin_ge_self:
  fixes x :: real
  assumes "0 \<le> x" "x \<le> 1"
  shows "x \<le> arcsin x"
proof -
  have "0 \<le> arcsin x" using assms by (simp add: arcsin_nonneg)
  then have "sin (arcsin x) \<le> arcsin x" by (rule sin_x_le_x)
  then show ?thesis using assms by simp
qed

lemma fixture_a:
  "haversine_a (4194 / 100) (- (8767 / 100)) (4188 / 100) (- (8775 / 100))
   = sin (pi / 6000) * sin (pi / 6000)
     + cos (233 * pi / 1000) * cos (349 * pi / 1500) * sin (pi / 4500) * sin (pi / 4500)"
proof -
  have 1: "toRad (4188 / 100 - 4194 / 100) / 2 = - (pi / 6000)"
    by (simp add: toRad_def)
  have 2: "toRad (- (8775 / 100) - - (8767 / 100)) / 2 = - (pi / 4500)"
    by (simp add: toRad_def)
  have 3: "toRad (4194 / 100) = 233 * pi / 1000" "toRad (4188 / 100) = 349 * pi / 1500"
    by (simp_all add: toRad_def)
  show ?thesis
    unfolding haversine_a_def Let_def 1 2 3 by simp
qed

lemma fixture_a_bounds:
  "(73 / 100000)\<^sup>2 \<le> haversine_a (4194 / 100) (- (8767 / 100)) (4188 / 100) (- (8775 / 100))"
  "haversine_a (4194 / 100) (- (8767 / 100)) (4188 / 100) (- (8775 / 100)) \<le> (749 / 1000000)\<^sup>2"
proof -
  note pb = pi_gt_314 pi_lt_3142
  define s1 where "s1 = sin (pi / 6000)"
  define s2 where "s2 = sin (pi / 4500)"
  define c1 where "c1 = cos (233 * pi / 1000)"
  define c2 where "c2 = cos (349 * pi / 1500)"
  have s1: "52333 / 100000000 \<le> s1" "s1 \<le> 52367 / 100000000"
  proof -
    have "314 / 600000 - (3142 / 6000000) ^ 3 / 6 \<le> s1" "s1 \<le> 3142 / 6000000"
      unfolding s1_def using pb by (intro sin_between [of "314 / 600000"]; simp)+
    then show "52333 / 100000000 \<le> s1" "s1 \<le> 52367 / 100000000"
      by (simp_all add: power_divide)
  qed
  have s2: "69777 / 100000000 \<le> s2" "s2 \<le> 69823 / 100000000"
  proof -
    have "314 / 450000 - (3142 / 4500000) ^ 3 / 6 \<le> s2" "s2 \<le> 3142 / 4500000"
      unfolding s2_def using pb by (intro sin_between [of "314 / 450000"]; simp)+
    then show "69777 / 100000000 \<le> s2" "s2 \<le> 69823 / 100000000"
      by (simp_all add: power_divide)
  qed
  have c1: "7429 / 10000 \<le> c1" "c1 \<le> 7458 / 10000"
  proof -
    have "1 - (733 / 1000) ^ 2 / 2 + (73 / 100) ^ 4 / 24 - (733 / 1000) ^ 6 / 720 \<le> c1"
      "c1 \<le> 1 - (73 / 100) ^ 2 / 2 + (733 / 1000) ^ 4 / 24 + (733 / 1000) ^ 6 / 720"
      unfolding c1_def using pb by (intro cos_between; simp)+
    then show "7429 / 10000 \<le> c1" "c1 \<le> 7458 / 10000"
      by (simp_all add: power_divide)
  qed
  have c2: "7429 / 10000 \<le> c2" "c2 \<le> 7458 / 10000"
  proof -
    have "1 - (733 / 1000) ^ 2 / 2 + (73 / 100) ^ 4 / 24 - (733 / 1000) ^ 6 / 720 \<le> c2"
      "c2 \<le> 1 - (73 / 100) ^ 2 / 2 + (733 / 1000) ^ 4 / 24 + (733 / 1000) ^ 6 / 720"
      unfolding c2_def using pb by (intro cos_between; simp)+
    then show "7429 / 10000 \<le> c2" "c2 \<le> 7458 / 10000"
      by (simp_all add: power_divide)
  qed
  have a: "haversine_a (4194 / 100) (- (8767 / 100)) (4188 / 100) (- (8775 / 100))
           = s1 * s1 + (c1 * c2) * (s2 * s2)"
    unfolding fixture_a s1_def s2_def c1_def c2_def by (simp add: mult.assoc)
  have s1l: "(52333 / 100000000) * (52333 / 100000000) \<le> s1 * s1"
    using s1 by (intro mult_mono) simp_all
  have s1u: "s1 * s1 \<le> (52367 / 100000000) * (52367 / 100000000)"
    using s1 by (intro mult_mono) simp_all
  have s2l: "(69777 / 100000000) * (69777 / 100000000) \<le> s2 * s2"
    using s2 by (intro mult_mono) simp_all
  have s2u: "s2 * s2 \<le> (69823 / 100000000) * (69823 / 100000000)"
    using s2 by (intro mult_mono) simp_all
  have cl: "(7429 / 10000) * (7429 / 10000) \<le> c1 * c2"
    using c1 c2 by (intro mult_mono) simp_all
  have cu: "c1 * c2 \<le> (7458 / 10000) * (7458 / 10000)"
    using c1 c2 by (intro mult_mono) simp_all
  have pl: "((7429 / 10000) * (7429 / 10000)) * ((69777 / 100000000) * (69777 / 100000000))
            \<le> (c1 * c2) * (s2 * s2)"
    using cl s2l c1 c2 s2 by (intro mult_mono) simp_all
  have pu: "(c1 * c2) * (s2 * s2)
            \<le> ((7458 / 10000) * (7458 / 10000)) * ((69823 / 100000000) * (69823 / 100000000))"
    using cu s2u c1 c2 s2 by (intro mult_mono) simp_all
  show "(73 / 100000)\<^sup>2 \<le> haversine_a (4194 / 100) (- (8767 / 100)) (4188 / 100) (- (8775 / 100))"
    unfolding a using s1l pl by (simp add: power2_eq_square)
  show "haversine_a (4194 / 100) (- (8767 / 100)) (4188 / 100) (- (8775 / 100)) \<le> (749 / 1000000)\<^sup>2"
    unfolding a using s1u pu by (simp add: power2_eq_square)
qed

lemma fixture_distance_bounds:
  "93 / 10 \<le> calculateDistance (4194 / 100) (- (8767 / 100)) (4188 / 100) (- (8775 / 100))"
  "calculateDistance (4194 / 100) (- (8767 / 100)) (4188 / 100) (- (8775 / 100)) \<le> 956 / 100"
proof -
  define a where "a = haversine_a (4194 / 100) (- (8767 / 100)) (4188 / 100) (- (8775 / 100))"
  have r: "0 \<le> a" "a \<le> 1"
    unfolding a_def using haversine_a_range by simp_all
  have sr: "0 \<le> sqrt a" "sqrt a \<le> 1" using r by simp_all
  have lo: "73 / 100000 \<le> sqrt a"
    using fixture_a_bounds(1) unfolding a_def [symmetric] by (intro real_le_rsqrt)
  have hi: "sqrt a \<le> 749 / 1000000"
    using fixture_a_bounds(2) unfolding a_def [symmetric] by (intro real_le_lsqrt) simp_all
  have "73 / 100000 \<le> arcsin (sqrt a)"
    using arcsin_ge_self [OF sr] lo by simp
  then show "93 / 10 \<le> calculateDistance (4194 / 100) (- (8767 / 100)) (4188 / 100) (- (8775 / 100))"
    unfolding calculateDistance_arcsin a_def [symmetric] by simp
  have "(75 / 100000 :: real) - (75 / 100000) ^ 3 / 6 \<le> sin (75 / 100000)"
    by (intro sin_between(1) [of "75 / 100000"]) simp_all
  then have "sqrt a \<le> sin (75 / 100000)"
    using hi by (simp add: power_divide)
  moreover have "(75 / 100000 :: real) \<le> pi / 2" using pi_ge_two by simp
  moreover have "- 1 \<le> sqrt a" using sr by linarith
  moreover have "- pi / 2 \<le> (75 / 100000 :: real)" using pi_ge_two by simp
  ultimately have "arcsin (sqrt a) \<le> 75 / 100000"
    using sr arcsin_le_iff [of "sqrt a" "75 / 100000"] by blast
  then show "calculateDistance (4194 / 100) (- (8767 / 100)) (4188 / 100) (- (8775 / 100)) \<le> 956 / 100"
    unfolding calculateDistance_arcsin a_def [symmetric] by simp
qed

section \<open>Properties of the sort\<close>







lemma hotspot_recommendation_of [simp]: "hotspot (recommendation_of c L h d) = h"
  by (simp add: recommendation_of_def Let_def)















section \<open>Properties of the expected value\<close>



lemma expectedNewSpecies_of_Nil [simp]: "expectedNewSpecies_of d [] = Finite 0"
  by (simp add: expectedNewSpecies_of_def)




lemma toFixed_zero [simp]: "toFixed f (Finite 0) = Finite 0"
  by (simp add: toFixed_def)





section \<open>Properties of the aggregation\<close>

lemma keys_increment [simp]: "map fst (increment c sf) = map fst sf"
  by (induction sf) auto

















section \<open>Properties of the recommendation record\<close>

















lemma calculateDistance_haversine_formula:
  "calculateDistance lat1 lon1 lat2 lon2
   = haversine_formula 6371 (toRad lat1) (toRad lon1) (toRad lat2) (toRad lon2)"
proof -
  have d: "toRad (x - y) = toRad x - toRad y" for x y
    by (simp add: toRad_def left_diff_distrib)
  have "haversine_a lat1 lon1 lat2 lon2
        = hav (toRad lat2 - toRad lat1) + cos (toRad lat1) * cos (toRad lat2) * hav (toRad lon2 - toRad lon1)"
    by (simp add: haversine_a_def Let_def hav_def d power2_eq_square mult.assoc)
  then show ?thesis
    by (simp add: calculateDistance_arcsin haversine_formula_def)
qed





section \<open>Properties of the store\<close>

lemma array_at_fresh [simp]: "array_at (hp @ a # rest) (length hp) = Some a"
  by (simp add: array_at_def)

lemma array_at_fresh1 [simp]: "array_at (hp @ [a]) (length hp) = Some a"
  by (simp add: array_at_def)

lemma map_callback_result:
  "\<exists>ext. map_callback c L sd h hp = Some (rec_or_null c L sd h, hp @ ext)"
proof (cases "sd (locId h)")
  case None
  then show ?thesis by (simp add: map_callback_def rec_or_null_def)
next
  case (Some d)
  have u: "(hp @ [x, y])[Suc (length hp) := z] = hp @ [x, z]" for x y z :: array
    by (simp add: list_update_append)
  have a: "array_at (hp @ [x, y]) (Suc (length hp)) = Some y" for x y :: array
    by (simp add: array_at_def nth_append)
  have b: "array_at (hp @ [x, y, z]) (Suc (Suc (length hp))) = Some z" for x y z :: array
    by (simp add: array_at_def nth_append)
  show ?thesis
    using Some
    by (simp add: map_callback_def rec_or_null_def alloc_def entries_at_def sort_entries_def
        recommendation_of_def topNewSpecies_of_def newSpecies_of_def Let_def u a b)
qed

lemma map_heap_result:
  assumes "\<And>x hp. \<exists>ext. f x hp = Some (g x, hp @ ext)"
  shows "\<exists>ext. map_heap f xs hp = Some (map g xs, hp @ ext)"
proof (induction xs arbitrary: hp)
  case Nil
  then show ?case by simp
next
  case (Cons x xs)
  obtain e1 where 1: "f x hp = Some (g x, hp @ e1)" using assms by blast
  obtain e2 where 2: "map_heap f xs (hp @ e1) = Some (map g xs, (hp @ e1) @ e2)"
    using Cons.IH by blast
  show ?case using 1 2 by simp
qed

lemma calculateRecommendations_result:
  assumes "hotspots_at (heap s) (hotspots s) = Some hs"
  shows "\<exists>ext. calculateRecommendations s =
           Some (s\<lparr>heap := heap s @ ext @
                     [NullableRecArray (map (rec_or_null CHICAGO_WEST (userLifeList s) (speciesData s)) hs),
                      RecArray (recommend CHICAGO_WEST hs (speciesData s) (userLifeList s))],
                   recommendations := Suc (length (heap s @ ext)),
                   stage := ''recommendations''\<rparr>)"
proof -
  let ?g = "rec_or_null CHICAGO_WEST (userLifeList s) (speciesData s)"
  obtain ext where m: "map_heap (map_callback CHICAGO_WEST (userLifeList s) (speciesData s)) hs (heap s)
      = Some (map ?g hs, heap s @ ext)"
    using map_heap_result [of "map_callback CHICAGO_WEST (userLifeList s) (speciesData s)" ?g hs "heap s"]
      map_callback_result by blast
  let ?hp = "heap s @ ext"
  have a: "array_at (?hp @ [x, y]) (Suc (length ?hp)) = Some y" for x y :: array
    by (simp add: array_at_def nth_append)
  have a0: "array_at (?hp @ [x]) (length ?hp) = Some x" for x :: array
    by (rule array_at_fresh1)
  have u: "(?hp @ [x, y])[Suc (length ?hp) := z] = ?hp @ [x, z]" for x y z :: array
    by (simp add: list_update_append)
  have "calculateRecommendations s =
           Some (s\<lparr>heap := ?hp @ [NullableRecArray (map ?g hs),
                      RecArray (recommend CHICAGO_WEST hs (speciesData s) (userLifeList s))],
                   recommendations := Suc (length ?hp),
                   stage := ''recommendations''\<rparr>)"
    using a a0 u
    by (simp add: calculateRecommendations_def assms m alloc_def nullable_recs_at_def recs_at_def
        sort_recs_def recommend_def Let_def del: append_assoc)
  then show ?thesis by auto
qed


section \<open>Claims\<close>


















text \<open>
  C7 (amended). The distance is the haversine formula with radius 6371 km, evaluated
  with \<open>atan2\<close>, and between (41.94, -87.67) and (41.88, -87.75) it is within 0.2 km
  of 9.4 km.
\<close>

theorem haversine_and_reference_distance:
  "calculateDistance lat1 lon1 lat2 lon2
     = haversine_formula 6371 (toRad lat1) (toRad lon1) (toRad lat2) (toRad lon2)
   \<and> calculateDistance lat1 lon1 lat2 lon2
     = 6371 * (2 * Math_atan2 (sqrt (haversine_a lat1 lon1 lat2 lon2))
                              (sqrt (1 - haversine_a lat1 lon1 lat2 lon2)))
   \<and> \<bar>calculateDistance (4194 / 100) (- (8767 / 100)) (4188 / 100) (- (8775 / 100)) - 94 / 10\<bar>
       \<le> 2 / 10"
proof (intro conjI)
  show "calculateDistance lat1 lon1 lat2 lon2
     = haversine_formula 6371 (toRad lat1) (toRad lon1) (toRad lat2) (toRad lon2)"
    by (rule calculateDistance_haversine_formula)
  show "calculateDistance lat1 lon1 lat2 lon2
     = 6371 * (2 * Math_atan2 (sqrt (haversine_a lat1 lon1 lat2 lon2))
                              (sqrt (1 - haversine_a lat1 lon1 lat2 lon2)))"
    by (simp add: calculateDistance_def Let_def)
  show "\<bar>calculateDistance (4194 / 100) (- (8767 / 100)) (4188 / 100) (- (8775 / 100)) - 94 / 10\<bar>
       \<le> 2 / 10"
    using fixture_distance_bounds by linarith
qed

text \<open>
  C7 as stated fails: that distance is not within 0.2 km of 8.1 km.
\<close>

theorem reference_distance_is_not_8_1:
  "\<not> \<bar>calculateDistance (4194 / 100) (- (8767 / 100)) (4188 / 100) (- (8775 / 100)) - 81 / 10\<bar>
       \<le> 2 / 10"
  using fixture_distance_bounds by linarith



text \<open>
  C9. When the state variable \<open>hotspots\<close> refers to an array of hotspots,
  \<open>calculateRecommendations\<close> returns, and afterwards every array that was in the store
  before the call is unchanged, the hotspots array among them (the two in-place sorts act
  on arrays created during the call), \<open>speciesData\<close> and \<open>userLifeList\<close> are
  unchanged, and the only product is a new array, the ranked recommendations.
\<close>

theorem calculateRecommendations_frame:
  assumes "hotspots_at (heap s) (hotspots s) = Some hs"
  shows "\<exists>s'. calculateRecommendations s = Some s'
      \<and> take (length (heap s)) (heap s') = heap s
      \<and> hotspots s' = hotspots s \<and> hotspots_at (heap s') (hotspots s') = Some hs
      \<and> speciesData s' = speciesData s \<and> userLifeList s' = userLifeList s
      \<and> length (heap s) \<le> recommendations s'
      \<and> recs_at (heap s') (recommendations s')
          = Some (recommend CHICAGO_WEST hs (speciesData s) (userLifeList s))
      \<and> stage s' = ''recommendations''"
proof -
  obtain ext where r: "calculateRecommendations s =
           Some (s\<lparr>heap := heap s @ ext @
                     [NullableRecArray (map (rec_or_null CHICAGO_WEST (userLifeList s) (speciesData s)) hs),
                      RecArray (recommend CHICAGO_WEST hs (speciesData s) (userLifeList s))],
                   recommendations := Suc (length (heap s @ ext)),
                   stage := ''recommendations''\<rparr>)"
    using calculateRecommendations_result [OF assms] by blast
  have lt: "hotspots s < length (heap s)"
    using assms by (auto simp: hotspots_at_def array_at_def split: if_splits)
  have h: "hotspots_at (heap s @ more) (hotspots s) = Some hs" for more
    using assms lt by (simp add: hotspots_at_def array_at_def nth_append)
  have ra: "recs_at (heap s @ ext @ [x, RecArray rs]) (Suc (length (heap s @ ext))) = Some rs" for x rs
    by (simp add: recs_at_def array_at_def nth_append)
  show ?thesis
    unfolding r using h ra by simp
qed

text \<open>
  A state with two hotspots in the array at address 0 and a summary for one of them.
\<close>

theorem calculateRecommendations_frame_witness:
  "\<exists>s'. calculateRecommendations sample_state = Some s'
      \<and> take 2 (heap s') = heap sample_state
      \<and> hotspots_at (heap s') (hotspots s')
          = Some [sample_hotspot ''A'' 42 (- 88), sample_hotspot ''B'' 41 (- 87)]
      \<and> speciesData s' = speciesData sample_state
      \<and> userLifeList s' = userLifeList sample_state"
proof -
  have h: "hotspots_at (heap sample_state) (hotspots sample_state)
           = Some [sample_hotspot ''A'' 42 (- 88), sample_hotspot ''B'' 41 (- 87)]"
    by (simp add: sample_state_def hotspots_at_def array_at_def)
  have l: "length (heap sample_state) = 2" by (simp add: sample_state_def)
  show ?thesis
    using calculateRecommendations_frame [OF h] unfolding l by blast
qed



end
